theory Spec2Isabelle
  imports Complex_Main "HOL-Library.Word" "HOL-Library.Multiset"
begin

section \<open>Single-precision values\<close>

text \<open>
  The C type \<^verbatim>\<open>float\<close> is modelled by its four IEEE-754 classes of values: the finite
  numbers, the two infinities and NaN. A finite operation returns the exact real result:
  rounding to 24 bits, overflow of a finite result and the sign of zero are left out
  (a zero divisor counts as \<open>+0\<close>, as the zero of a length or of a sum of squares
  is). The exceptional results are the IEEE ones:
  \<open>0 / 0\<close>, \<open>\<infinity> - \<infinity>\<close>, \<open>0 * \<infinity>\<close> and the square root of a negative number are NaN,
  a nonzero number divided by zero is an infinity, and every comparison with NaN is false.
\<close>

datatype float = Fin real | PInf | NInf | NaN

fun fneg :: "float \<Rightarrow> float" where
  "fneg (Fin a) = Fin (- a)"
| "fneg PInf = NInf"
| "fneg NInf = PInf"
| "fneg NaN = NaN"

fun fadd :: "float \<Rightarrow> float \<Rightarrow> float" where
  "fadd NaN _ = NaN"
| "fadd _ NaN = NaN"
| "fadd (Fin a) (Fin b) = Fin (a + b)"
| "fadd PInf NInf = NaN"
| "fadd NInf PInf = NaN"
| "fadd PInf _ = PInf"
| "fadd _ PInf = PInf"
| "fadd NInf _ = NInf"
| "fadd _ NInf = NInf"

fun fmul :: "float \<Rightarrow> float \<Rightarrow> float" where
  "fmul NaN _ = NaN"
| "fmul _ NaN = NaN"
| "fmul (Fin a) (Fin b) = Fin (a * b)"
| "fmul (Fin a) PInf = (if a = 0 then NaN else if 0 < a then PInf else NInf)"
| "fmul (Fin a) NInf = (if a = 0 then NaN else if 0 < a then NInf else PInf)"
| "fmul PInf (Fin b) = (if b = 0 then NaN else if 0 < b then PInf else NInf)"
| "fmul NInf (Fin b) = (if b = 0 then NaN else if 0 < b then NInf else PInf)"
| "fmul PInf PInf = PInf"
| "fmul PInf NInf = NInf"
| "fmul NInf PInf = NInf"
| "fmul NInf NInf = PInf"

fun fdiv :: "float \<Rightarrow> float \<Rightarrow> float" where
  "fdiv NaN _ = NaN"
| "fdiv _ NaN = NaN"
| "fdiv (Fin a) (Fin b) =
     (if b = 0 then (if a = 0 then NaN else if 0 < a then PInf else NInf)
      else Fin (a / b))"
| "fdiv (Fin a) PInf = Fin 0"
| "fdiv (Fin a) NInf = Fin 0"
| "fdiv PInf (Fin b) = (if 0 \<le> b then PInf else NInf)"
| "fdiv NInf (Fin b) = (if 0 \<le> b then NInf else PInf)"
| "fdiv PInf PInf = NaN"
| "fdiv PInf NInf = NaN"
| "fdiv NInf PInf = NaN"
| "fdiv NInf NInf = NaN"

fun fless :: "float \<Rightarrow> float \<Rightarrow> bool" where
  "fless NaN _ = False"
| "fless _ NaN = False"
| "fless (Fin a) (Fin b) = (a < b)"
| "fless (Fin a) PInf = True"
| "fless NInf (Fin b) = True"
| "fless NInf PInf = True"
| "fless _ _ = False"

fun fle :: "float \<Rightarrow> float \<Rightarrow> bool" where
  "fle NaN _ = False"
| "fle _ NaN = False"
| "fle (Fin a) (Fin b) = (a \<le> b)"
| "fle _ PInf = True"
| "fle NInf _ = True"
| "fle _ _ = False"

instantiation float :: "{plus, minus, uminus, times, inverse, ord}"
begin

definition plus_float :: "float \<Rightarrow> float \<Rightarrow> float" where
  "plus_float a b = fadd a b"

definition uminus_float :: "float \<Rightarrow> float" where
  "uminus_float a = fneg a"

definition minus_float :: "float \<Rightarrow> float \<Rightarrow> float" where
  "minus_float a b = fadd a (fneg b)"

definition times_float :: "float \<Rightarrow> float \<Rightarrow> float" where
  "times_float a b = fmul a b"

definition divide_float :: "float \<Rightarrow> float \<Rightarrow> float" where
  "divide_float a b = fdiv a b"

definition inverse_float :: "float \<Rightarrow> float" where
  "inverse_float a = fdiv (Fin 1) a"

definition less_float :: "float \<Rightarrow> float \<Rightarrow> bool" where
  "less_float a b = fless a b"

definition less_eq_float :: "float \<Rightarrow> float \<Rightarrow> bool" where
  "less_eq_float a b = fle a b"

instance ..

end

text \<open>\<^verbatim>\<open>sqrtf\<close> of \<^verbatim>\<open>math.h\<close>.\<close>

fun sqrtf :: "float \<Rightarrow> float" where
  "sqrtf (Fin a) = (if a < 0 then NaN else Fin (sqrt a))"
| "sqrtf PInf = PInf"
| "sqrtf NInf = NaN"
| "sqrtf NaN = NaN"

text \<open>
  \<^verbatim>\<open>powf\<close> of \<^verbatim>\<open>math.h\<close>, with the special cases of Annex F of the C standard:
  \<open>powf(x, 0) = 1\<close> and \<open>powf(1, y) = 1\<close> also for NaN, a negative base needs an
  integral exponent, and the infinite cases follow the size of the base and the sign of
  the exponent.
\<close>

definition is_integral :: "real \<Rightarrow> bool" where
  "is_integral r = (r = of_int \<lfloor>r\<rfloor>)"

fun powf :: "float \<Rightarrow> float \<Rightarrow> float" where
  "powf v (Fin e) =
     (if e = 0 then Fin 1
      else case v of
          Fin b \<Rightarrow>
            (if b = 1 then Fin 1
             else if 0 < b then Fin (b powr e)
             else if b = 0 then (if 0 < e then Fin 0 else PInf)
             else if is_integral e
               then (if even \<lfloor>e\<rfloor> then Fin ((- b) powr e) else Fin (- ((- b) powr e)))
             else NaN)
        | PInf \<Rightarrow> (if 0 < e then PInf else Fin 0)
        | NInf \<Rightarrow>
            (if 0 < e then (if is_integral e \<and> odd \<lfloor>e\<rfloor> then NInf else PInf)
             else Fin 0)
        | NaN \<Rightarrow> NaN)"
| "powf v PInf =
     (case v of
          Fin b \<Rightarrow> (if \<bar>b\<bar> = 1 then Fin 1 else if \<bar>b\<bar> < 1 then Fin 0 else PInf)
        | NaN \<Rightarrow> NaN
        | _ \<Rightarrow> PInf)"
| "powf v NInf =
     (case v of
          Fin b \<Rightarrow> (if \<bar>b\<bar> = 1 then Fin 1 else if \<bar>b\<bar> < 1 then PInf else Fin 0)
        | NaN \<Rightarrow> NaN
        | _ \<Rightarrow> Fin 0)"
| "powf v NaN = (if v = Fin 1 then Fin 1 else NaN)"

text \<open>
  Modelled from the spec: \<^verbatim>\<open>main.c\<close> calls \<^verbatim>\<open>max\<close> and \<^verbatim>\<open>min\<close> (as in the spec's
  \<^verbatim>\<open>max(0, dot(light_dir, normal))\<close>) and defines neither; they are the comparison
  macros \<^verbatim>\<open>((a) > (b)) ? (a) : (b)\<close> and \<^verbatim>\<open>((a) < (b)) ? (a) : (b)\<close> of the
  platform's \<^verbatim>\<open>stdlib.h\<close>.
\<close>

definition max_macro :: "float \<Rightarrow> float \<Rightarrow> float" where
  "max_macro a b = (if a > b then a else b)"

definition min_macro :: "float \<Rightarrow> float \<Rightarrow> float" where
  "min_macro a b = (if a < b then a else b)"

text \<open>\<^verbatim>\<open>FLT_MAX\<close> of \<^verbatim>\<open>float.h\<close>: the largest finite single-precision number.\<close>

definition FLT_MAX :: float where
  "FLT_MAX = Fin ((2 ^ 24 - 1) * 2 ^ 104)"


section \<open>Policy A: the C program\<close>

subsection \<open>Vectors\<close>

record vec3 =
  vec3_x :: float
  vec3_y :: float
  vec3_z :: float

definition vec3_length :: "vec3 \<Rightarrow> float" where
  "vec3_length v =
     sqrtf (powf (vec3_x v) (Fin 2) + powf (vec3_y v) (Fin 2) + powf (vec3_z v) (Fin 2))"

definition vec3_normalize :: "vec3 \<Rightarrow> vec3" where
  "vec3_normalize v =
     (let length = vec3_length v
      in \<lparr>vec3_x = vec3_x v / length, vec3_y = vec3_y v / length, vec3_z = vec3_z v / length\<rparr>)"

definition vec3_dot :: "vec3 \<Rightarrow> vec3 \<Rightarrow> float" where
  "vec3_dot a b = vec3_x a * vec3_x b + vec3_y a * vec3_y b + vec3_z a * vec3_z b"

definition vec3_inverse :: "vec3 \<Rightarrow> vec3" where
  "vec3_inverse v = \<lparr>vec3_x = - vec3_x v, vec3_y = - vec3_y v, vec3_z = - vec3_z v\<rparr>"

definition vec3_reflect :: "vec3 \<Rightarrow> vec3 \<Rightarrow> vec3" where
  "vec3_reflect I N =
     (let dot = vec3_dot I N
      in \<lparr>vec3_x = vec3_x I - vec3_x N * Fin 2 * dot,
          vec3_y = vec3_y I - vec3_y N * Fin 2 * dot,
          vec3_z = vec3_z I - vec3_z N * Fin 2 * dot\<rparr>)"

text \<open>The clamped cosine that \<^verbatim>\<open>vec3_refract\<close> computes first.\<close>

definition refract_cosi :: "vec3 \<Rightarrow> vec3 \<Rightarrow> float" where
  "refract_cosi I N = - max_macro (Fin (- 1)) (min_macro (Fin 1) (vec3_dot I N))"


lemmas float_ops =
  plus_float_def uminus_float_def minus_float_def times_float_def divide_float_def
  less_float_def less_eq_float_def

lemma fmul_fneg_right: "fmul a (fneg b) = fneg (fmul a b)"
  by (cases a; cases b) auto

lemma fadd_fneg_fneg: "fadd (fneg a) (fneg b) = fneg (fadd a b)"
  by (cases a; cases b) auto

lemma vec3_dot_inverse: "vec3_dot I (vec3_inverse N) = - vec3_dot I N"
  by (simp add: vec3_dot_def vec3_inverse_def float_ops fmul_fneg_right fadd_fneg_fneg)

lemma refract_cosi_flip:
  "refract_cosi I N < Fin 0 \<Longrightarrow> \<not> refract_cosi I (vec3_inverse N) < Fin 0"
  unfolding refract_cosi_def vec3_dot_inverse
  by (cases "vec3_dot I N") (auto simp: float_ops max_macro_def min_macro_def split: if_splits)

function vec3_refract :: "vec3 \<Rightarrow> vec3 \<Rightarrow> float \<Rightarrow> float \<Rightarrow> vec3" where
  "vec3_refract I N eta_t eta_i =
     (let cosi = - max_macro (Fin (- 1)) (min_macro (Fin 1) (vec3_dot I N))
      in if cosi < Fin 0 then vec3_refract I (vec3_inverse N) eta_i eta_t
         else
           let eta = eta_i / eta_t;
               k = Fin 1 - powf eta (Fin 2) * (Fin 1 - powf cosi (Fin 2))
           in \<lparr>vec3_x = (if k < Fin 0 then Fin 1
                         else vec3_x I * eta + vec3_x N * (eta * cosi - sqrtf k)),
               vec3_y = (if k < Fin 0 then Fin 0
                         else vec3_y I * eta + vec3_y N * (eta * cosi - sqrtf k)),
               vec3_z = (if k < Fin 0 then Fin 0
                         else vec3_z I * eta + vec3_z N * (eta * cosi - sqrtf k))\<rparr>)"
  by pat_completeness auto
termination
proof (relation "measure (\<lambda>(I, N, eta_t, eta_i). if refract_cosi I N < Fin 0 then 1 else 0)")
  show "wf (measure (\<lambda>(I, N, eta_t, eta_i). if refract_cosi I N < Fin 0 then 1 else (0::nat)))"
    by simp
next
  fix I N :: vec3 and eta_t eta_i x :: float
  assume "x = - max_macro (Fin (- 1)) (min_macro (Fin 1) (vec3_dot I N))" and "x < Fin 0"
  then have "refract_cosi I N < Fin 0"
    by (simp add: refract_cosi_def)
  then show "((I, vec3_inverse N, eta_i, eta_t), (I, N, eta_t, eta_i))
      \<in> measure (\<lambda>(I, N, eta_t, eta_i). if refract_cosi I N < Fin 0 then 1 else 0)"
    using refract_cosi_flip [of I N] by simp
qed


subsection \<open>Materials, spheres and lights\<close>

record vec4 =
  vec4_x :: float
  vec4_y :: float
  vec4_z :: float
  vec4_w :: float

record material =
  albedo :: vec4
  diffuse :: vec3
  specular_exponent :: float
  refractive_index :: float

text \<open>A sphere points to its material; the model holds the material's value.\<close>

record sphere =
  center :: vec3
  radius :: float
  sphere_material :: material

record light =
  position :: vec3
  intensity :: float

text \<open>
  \<^verbatim>\<open>sphere_ray_intersect\<close> returns \<^verbatim>\<open>true\<close> with the distance in \<^verbatim>\<open>*t0\<close>
  (\<open>Some t0\<close>) or \<^verbatim>\<open>false\<close> (\<open>None\<close>).
\<close>

definition sphere_ray_intersect :: "sphere \<Rightarrow> vec3 \<Rightarrow> vec3 \<Rightarrow> float option" where
  "sphere_ray_intersect sphere origin direction =
     (let L = \<lparr>vec3_x = vec3_x (center sphere) - vec3_x origin,
               vec3_y = vec3_y (center sphere) - vec3_y origin,
               vec3_z = vec3_z (center sphere) - vec3_z origin\<rparr>;
          tca = vec3_dot L direction;
          d2 = vec3_dot L L - powf tca (Fin 2)
      in if d2 > powf (radius sphere) (Fin 2) then None
         else
           let thc = sqrtf (powf (radius sphere) (Fin 2) - d2);
               t0 = tca - thc;
               t1 = tca + thc;
               t0 = (if t0 < Fin 0 then t1 else t0)
           in if t0 < Fin 0 then None else Some t0)"

subsection \<open>Scene resolution\<close>

text \<open>
  The loop of \<^verbatim>\<open>scene_intersect\<close> carries \<^verbatim>\<open>spheres_dist\<close> and the three output
  parameters \<^verbatim>\<open>*hit\<close>, \<^verbatim>\<open>*N\<close> and \<^verbatim>\<open>*material\<close>, which stay unwritten (\<open>None\<close>)
  until a sphere is accepted. One iteration:
\<close>

type_synonym scene_hit = "vec3 \<times> vec3 \<times> material"

definition scene_intersect_step ::
  "vec3 \<Rightarrow> vec3 \<Rightarrow> sphere \<Rightarrow> float \<times> scene_hit option \<Rightarrow> float \<times> scene_hit option" where
  "scene_intersect_step origin direction sphere st =
     (case sphere_ray_intersect sphere origin direction of
        None \<Rightarrow> st
      | Some dist_i \<Rightarrow>
          if dist_i < fst st then
            let hit = \<lparr>vec3_x = vec3_x origin + (vec3_x direction * dist_i),
                        vec3_y = vec3_y origin + (vec3_y direction * dist_i),
                        vec3_z = vec3_z origin + (vec3_z direction * dist_i)\<rparr>;
                N = vec3_normalize
                     \<lparr>vec3_x = vec3_x hit - vec3_x (center sphere),
                      vec3_y = vec3_y hit - vec3_y (center sphere),
                      vec3_z = vec3_z hit - vec3_z (center sphere)\<rparr>
            in (dist_i, Some (hit, N, sphere_material sphere))
          else st)"

text \<open>
  \<^verbatim>\<open>scene_intersect\<close> returns \<^verbatim>\<open>spheres_dist < 1000\<close>. The callers read the output
  parameters only after \<^verbatim>\<open>true\<close>, so the model returns them in that case and \<open>None\<close>
  for \<^verbatim>\<open>false\<close>.
\<close>

definition scene_intersect :: "vec3 \<Rightarrow> vec3 \<Rightarrow> sphere list \<Rightarrow> scene_hit option" where
  "scene_intersect origin direction spheres =
     (let st = fold (scene_intersect_step origin direction) spheres (FLT_MAX, None)
      in if fst st < Fin 1000 then snd st else None)"

subsection \<open>Transport\<close>

text \<open>
  \<^verbatim>\<open>cast_ray\<close> writes out, for the reflected ray, the refracted ray and each shadow ray,
  the same origin: the hit point moved by \<^verbatim>\<open>1e-3f\<close> along the normal, against it when
  the new direction opposes the normal.
\<close>

definition biased_origin :: "vec3 \<Rightarrow> vec3 \<Rightarrow> vec3 \<Rightarrow> vec3" where
  "biased_origin new_direction point N =
     \<lparr>vec3_x = (if vec3_dot new_direction N < Fin 0
                then vec3_x point - vec3_x N * Fin 0.001
                else vec3_x point + vec3_x N * Fin 0.001),
      vec3_y = (if vec3_dot new_direction N < Fin 0
                then vec3_y point - vec3_y N * Fin 0.001
                else vec3_y point + vec3_y N * Fin 0.001),
      vec3_z = (if vec3_dot new_direction N < Fin 0
                then vec3_z point - vec3_z N * Fin 0.001
                else vec3_z point + vec3_z N * Fin 0.001)\<rparr>"

text \<open>
  One iteration of the loop over the lights: the state is
  \<^verbatim>\<open>(diffuse_light_intensity, specular_light_intensity)\<close>, and a light in shadow is
  skipped by \<^verbatim>\<open>continue\<close>.
\<close>

definition cast_ray_light ::
  "vec3 \<Rightarrow> sphere list \<Rightarrow> vec3 \<Rightarrow> vec3 \<Rightarrow> material \<Rightarrow> light \<Rightarrow> float \<times> float \<Rightarrow> float \<times> float" where
  "cast_ray_light direction spheres point N material light acc =
     (let light_direction = \<lparr>vec3_x = vec3_x (position light) - vec3_x point,
                             vec3_y = vec3_y (position light) - vec3_y point,
                             vec3_z = vec3_z (position light) - vec3_z point\<rparr>;
          light_distance = vec3_length light_direction;
          light_direction = vec3_normalize light_direction;
          shadow_origin = biased_origin light_direction point N;
          in_shadow =
            (case scene_intersect shadow_origin light_direction spheres of
               None \<Rightarrow> False
             | Some (shadow_point, shadow_N, shadow_material) \<Rightarrow>
                 let shadow_diff = \<lparr>vec3_x = vec3_x shadow_point - vec3_x shadow_origin,
                                    vec3_y = vec3_y shadow_point - vec3_y shadow_origin,
                                    vec3_z = vec3_z shadow_point - vec3_z shadow_origin\<rparr>
                 in vec3_length shadow_diff < light_distance)
      in if in_shadow then acc
         else
           (fst acc + max_macro (Fin 0) (vec3_dot light_direction N) * intensity light,
            snd acc
              + powf (max_macro (Fin 0) (vec3_dot (vec3_reflect light_direction N) direction))
                  (specular_exponent material)
                * intensity light))"

definition background :: vec3 where
  "background = \<lparr>vec3_x = Fin 0.2, vec3_y = Fin 0.7, vec3_z = Fin 0.8\<rparr>"

text \<open>\<^verbatim>\<open>depth\<close> is an \<^verbatim>\<open>unsigned int\<close>.\<close>

function cast_ray :: "vec3 \<Rightarrow> vec3 \<Rightarrow> sphere list \<Rightarrow> light list \<Rightarrow> 32 word \<Rightarrow> vec3" where
  "cast_ray origin direction spheres lights depth =
     (if depth \<le> 4 then
        (case scene_intersect origin direction spheres of
           None \<Rightarrow> background
         | Some (point, N, material) \<Rightarrow>
             let reflect_direction = vec3_normalize (vec3_reflect direction N);
                 reflect_origin = biased_origin reflect_direction point N;
                 reflect_color = cast_ray reflect_origin reflect_direction spheres lights (depth + 1);
                 refract_direction =
                   vec3_normalize (vec3_refract direction N (refractive_index material) (Fin 1));
                 refract_origin = biased_origin refract_direction point N;
                 refract_color = cast_ray refract_origin refract_direction spheres lights (depth + 1);
                 (diffuse_light_intensity, specular_light_intensity) =
                   fold (cast_ray_light direction spheres point N material) lights (Fin 0, Fin 0)
             in \<lparr>vec3_x = vec3_x (diffuse material) * diffuse_light_intensity * vec4_x (albedo material)
                          + specular_light_intensity * vec4_y (albedo material)
                          + vec3_x reflect_color * vec4_z (albedo material)
                          + vec3_x refract_color * vec4_w (albedo material),
                 vec3_y = vec3_y (diffuse material) * diffuse_light_intensity * vec4_x (albedo material)
                          + specular_light_intensity * vec4_y (albedo material)
                          + vec3_y reflect_color * vec4_z (albedo material)
                          + vec3_y refract_color * vec4_w (albedo material),
                 vec3_z = vec3_z (diffuse material) * diffuse_light_intensity * vec4_x (albedo material)
                          + specular_light_intensity * vec4_y (albedo material)
                          + vec3_z reflect_color * vec4_z (albedo material)
                          + vec3_z refract_color * vec4_w (albedo material)\<rparr>)
      else background)"
  by pat_completeness auto

lemma cast_ray_depth_measure: "depth \<le> 4 \<Longrightarrow> 5 - unat (depth + 1) < 5 - unat (depth :: 32 word)"
  by (simp add: word_le_nat_alt unat_word_ariths)

lemma cast_ray_total:
  "cast_ray_dom (origin, direction, spheres, lights, depth)"
proof -
  have "All cast_ray_dom"
    by (relation "measure (\<lambda>(origin, direction, spheres, lights, depth). 5 - unat depth)")
       (simp_all add: cast_ray_depth_measure)
  then show ?thesis by simp
qed

termination cast_ray
  using cast_ray_total by auto


section \<open>Policy B: the C++ program\<close>

subsection \<open>Vectors of the glm library\<close>

text \<open>
  \<^verbatim>\<open>glm::vec3\<close> has the three \<^verbatim>\<open>float\<close> components of \<^verbatim>\<open>struct vec3\<close>, and its
  operators work on each component. \<^verbatim>\<open>glm::normalize(v)\<close> is
  \<^verbatim>\<open>v * inversesqrt(dot(v, v))\<close> and \<^verbatim>\<open>inversesqrt(x)\<close> is \<^verbatim>\<open>1 / sqrt(x)\<close>.
\<close>

definition glm_vec3 :: "float \<Rightarrow> float \<Rightarrow> float \<Rightarrow> vec3" where
  "glm_vec3 a b c = \<lparr>vec3_x = a, vec3_y = b, vec3_z = c\<rparr>"

definition glm_add :: "vec3 \<Rightarrow> vec3 \<Rightarrow> vec3" where
  "glm_add a b = glm_vec3 (vec3_x a + vec3_x b) (vec3_y a + vec3_y b) (vec3_z a + vec3_z b)"

definition glm_sub :: "vec3 \<Rightarrow> vec3 \<Rightarrow> vec3" where
  "glm_sub a b = glm_vec3 (vec3_x a - vec3_x b) (vec3_y a - vec3_y b) (vec3_z a - vec3_z b)"

definition glm_neg :: "vec3 \<Rightarrow> vec3" where
  "glm_neg a = glm_vec3 (- vec3_x a) (- vec3_y a) (- vec3_z a)"

definition glm_scale :: "float \<Rightarrow> vec3 \<Rightarrow> vec3" where
  "glm_scale t a = glm_vec3 (t * vec3_x a) (t * vec3_y a) (t * vec3_z a)"

definition glm_times :: "vec3 \<Rightarrow> float \<Rightarrow> vec3" where
  "glm_times a t = glm_vec3 (vec3_x a * t) (vec3_y a * t) (vec3_z a * t)"

definition glm_div :: "vec3 \<Rightarrow> float \<Rightarrow> vec3" where
  "glm_div a t = glm_vec3 (vec3_x a / t) (vec3_y a / t) (vec3_z a / t)"

definition glm_dot :: "vec3 \<Rightarrow> vec3 \<Rightarrow> float" where
  "glm_dot a b = vec3_x a * vec3_x b + vec3_y a * vec3_y b + vec3_z a * vec3_z b"

definition glm_normalize :: "vec3 \<Rightarrow> vec3" where
  "glm_normalize v = glm_times v (Fin 1 / sqrtf (glm_dot v v))"

definition infinity :: float where
  "infinity = PInf"

subsection \<open>The random source\<close>

text \<open>
  \<^verbatim>\<open>random_float()\<close> draws from a static \<^verbatim>\<open>std::mt19937\<close> through a static
  \<^verbatim>\<open>std::uniform_real_distribution\<close>, both of the C++ library. The model takes the
  sequence \<open>rand\<close> of the values that the successive calls return as a parameter; the
  state of the generator is the number of calls made so far. Constructor arguments are
  drawn from left to right. \<open>random_float_draw\<close> is \<^verbatim>\<open>random_float()\<close> and
  \<open>random_float_range\<close> is \<^verbatim>\<open>random_float(min, max)\<close>; of \<^verbatim>\<open>random_vec3\<close> the program
  calls only the overload with a range.
\<close>

definition random_float_draw :: "(nat \<Rightarrow> float) \<Rightarrow> nat \<Rightarrow> float \<times> nat" where
  "random_float_draw rand g = (rand g, Suc g)"

definition random_float_range :: "(nat \<Rightarrow> float) \<Rightarrow> float \<Rightarrow> float \<Rightarrow> nat \<Rightarrow> float \<times> nat" where
  "random_float_range rand min' max' g =
     (let (r, g) = random_float_draw rand g in (min' + (max' - min') * r, g))"

definition random_vec3_range :: "(nat \<Rightarrow> float) \<Rightarrow> float \<Rightarrow> float \<Rightarrow> nat \<Rightarrow> vec3 \<times> nat" where
  "random_vec3_range rand min' max' g =
     (let (a, g) = random_float_range rand min' max' g;
          (b, g) = random_float_range rand min' max' g;
          (c, g) = random_float_range rand min' max' g
      in (glm_vec3 a b c, g))"

text \<open>The loop \<^verbatim>\<open>while (true)\<close> returns only from inside; \<open>None\<close> is the run that never does.\<close>

partial_function (option) random_in_unit_sphere :: "(nat \<Rightarrow> float) \<Rightarrow> nat \<Rightarrow> (vec3 \<times> nat) option" where
  "random_in_unit_sphere rand g =
     (case random_vec3_range rand (Fin (- 1)) (Fin 1) g of
        (p, g') \<Rightarrow>
          if glm_dot p p \<ge> Fin 1 then random_in_unit_sphere rand g'
          else Some (p, g'))"

definition random_unit_vector :: "(nat \<Rightarrow> float) \<Rightarrow> nat \<Rightarrow> (vec3 \<times> nat) option" where
  "random_unit_vector rand g =
     (case random_in_unit_sphere rand g of
        None \<Rightarrow> None
      | Some (p, g') \<Rightarrow> Some (glm_normalize p, g'))"

subsection \<open>Rays, hit records and primitives\<close>

record ray =
  ray_origin :: vec3
  ray_direction :: vec3

definition ray_at :: "ray \<Rightarrow> float \<Rightarrow> vec3" where
  "ray_at r t = glm_add (ray_origin r) (glm_scale t (ray_direction r))"

record hit_record =
  hit_distance :: float
  hit_point :: vec3
  hit_normal :: vec3
  front_face :: bool

definition set_face_normal :: "hit_record \<Rightarrow> ray \<Rightarrow> vec3 \<Rightarrow> hit_record" where
  "set_face_normal rec r outward_normal =
     (let rec = rec\<lparr>front_face := glm_dot (ray_direction r) outward_normal < Fin 0\<rparr>
      in rec\<lparr>hit_normal := (if front_face rec then outward_normal else glm_neg outward_normal)\<rparr>)"

text \<open>
  The virtual method \<^verbatim>\<open>hittable::hit(ray, t_min, t_max, record)\<close> returns \<^verbatim>\<open>true\<close>
  after writing \<^verbatim>\<open>record\<close> (\<open>Some\<close> of the record) or \<^verbatim>\<open>false\<close> (\<open>None\<close>).
\<close>

type_synonym hittable = "ray \<Rightarrow> float \<Rightarrow> float \<Rightarrow> hit_record option"

record sphere_cpp =
  center_cpp :: vec3
  radius_cpp :: float

text \<open>
  The last three statements of \<^verbatim>\<open>sphere::hit\<close>, which write the record for the root that
  passed the tests. They write every field, so the record that \<^verbatim>\<open>sphere::hit\<close> leaves
  does not depend on the one it was given.
\<close>

definition sphere_record :: "sphere_cpp \<Rightarrow> ray \<Rightarrow> float \<Rightarrow> hit_record" where
  "sphere_record s r t =
     (let point = ray_at r t;
          rec = \<lparr>hit_distance = t, hit_point = point, hit_normal = point, front_face = False\<rparr>
      in set_face_normal rec r (glm_div (glm_sub point (center_cpp s)) (radius_cpp s)))"

definition sphere_hit :: "sphere_cpp \<Rightarrow> hittable" where
  "sphere_hit s r t_min t_max =
     (let oc = glm_sub (ray_origin r) (center_cpp s);
          a = glm_dot (ray_direction r) (ray_direction r);
          half_b = glm_dot oc (ray_direction r);
          c = glm_dot oc oc - powf (radius_cpp s) (Fin 2);
          discriminant = powf half_b (Fin 2) - a * c
      in if discriminant < Fin 0 then None
         else
           let sqrtd = sqrtf discriminant;
               root = (- half_b - sqrtd) / a
           in if root < t_min \<or> t_max < root then
                (let root = (- half_b + sqrtd) / a
                 in if root < t_min \<or> t_max < root then None
                    else Some (sphere_record s r root))
              else Some (sphere_record s r root))"

subsection \<open>Scene resolution\<close>

text \<open>
  One iteration of the loop of \<^verbatim>\<open>world::hit\<close>; the state is \<^verbatim>\<open>hit_anything\<close>,
  \<^verbatim>\<open>closest_so_far\<close> and the output \<^verbatim>\<open>record\<close>, unwritten (\<open>None\<close>) until an object
  is hit.
\<close>

definition world_hit_step ::
  "ray \<Rightarrow> float \<Rightarrow> hittable \<Rightarrow> bool \<times> float \<times> hit_record option \<Rightarrow> bool \<times> float \<times> hit_record option" where
  "world_hit_step r t_min object st =
     (case st of
        (hit_anything, closest_so_far, rec) \<Rightarrow>
          (case object r t_min closest_so_far of
             None \<Rightarrow> (hit_anything, closest_so_far, rec)
           | Some temp_record \<Rightarrow> (True, hit_distance temp_record, Some temp_record)))"

definition world_hit :: "hittable list \<Rightarrow> hittable" where
  "world_hit objects r t_min t_max =
     (case fold (world_hit_step r t_min) objects (False, t_max, None) of
        (hit_anything, closest_so_far, rec) \<Rightarrow> if hit_anything then rec else None)"

subsection \<open>Transport\<close>

text \<open>
  \<^verbatim>\<open>raytrace\<close> takes and returns the state of the random source; its result is \<open>None\<close>
  when a call of \<^verbatim>\<open>random_unit_vector\<close> does not return.
\<close>

function raytrace :: "(nat \<Rightarrow> float) \<Rightarrow> ray \<Rightarrow> hittable \<Rightarrow> int \<Rightarrow> nat \<Rightarrow> (vec3 \<times> nat) option" where
  "raytrace rand r world depth g =
     (if depth \<le> 0 then Some (glm_vec3 (Fin 0) (Fin 0) (Fin 0), g)
      else
        case world r (Fin 0.001) infinity of
          Some rec \<Rightarrow>
            (case random_unit_vector rand g of
               None \<Rightarrow> None
             | Some (u, g') \<Rightarrow>
                 let target = glm_add (glm_add (hit_point rec) (hit_normal rec)) u
                 in (case raytrace rand
                            \<lparr>ray_origin = hit_point rec,
                             ray_direction = glm_sub target (hit_point rec)\<rparr>
                            world (depth - 1) g' of
                       None \<Rightarrow> None
                     | Some (color, g'') \<Rightarrow> Some (glm_scale (Fin 0.5) color, g'')))
        | None \<Rightarrow>
            let unit_direction = glm_normalize (ray_direction r);
                t = Fin 0.5 * (vec3_y unit_direction + Fin 1)
            in Some (glm_add (glm_scale (Fin 1.0 - t) (glm_vec3 (Fin 1) (Fin 1) (Fin 1)))
                             (glm_scale t (glm_vec3 (Fin 0.5) (Fin 0.7) (Fin 1.0))), g))"
  by pat_completeness auto
termination
  by (relation "measure (\<lambda>(rand, r, world, depth, g). nat depth)") simp_all


section \<open>The scenes of the two programs\<close>

text \<open>The materials, spheres and lights that \<^verbatim>\<open>main\<close> of the C program sets up.\<close>

definition ivory :: material where
  "ivory = \<lparr>albedo = \<lparr>vec4_x = Fin 0.6, vec4_y = Fin 0.3, vec4_z = Fin 0.1, vec4_w = Fin 0\<rparr>,
            diffuse = \<lparr>vec3_x = Fin 0.4, vec3_y = Fin 0.4, vec3_z = Fin 0.3\<rparr>,
            specular_exponent = Fin 50, refractive_index = Fin 1\<rparr>"

definition glass :: material where
  "glass = \<lparr>albedo = \<lparr>vec4_x = Fin 0, vec4_y = Fin 0.5, vec4_z = Fin 0.1, vec4_w = Fin 0.8\<rparr>,
            diffuse = \<lparr>vec3_x = Fin 0.6, vec3_y = Fin 0.7, vec3_z = Fin 0.8\<rparr>,
            specular_exponent = Fin 125, refractive_index = Fin 1.5\<rparr>"

definition rubber :: material where
  "rubber = \<lparr>albedo = \<lparr>vec4_x = Fin 0.9, vec4_y = Fin 0.1, vec4_z = Fin 0, vec4_w = Fin 0\<rparr>,
             diffuse = \<lparr>vec3_x = Fin 0.3, vec3_y = Fin 0.1, vec3_z = Fin 0.1\<rparr>,
             specular_exponent = Fin 10, refractive_index = Fin 1\<rparr>"

definition mirror :: material where
  "mirror = \<lparr>albedo = \<lparr>vec4_x = Fin 0, vec4_y = Fin 10, vec4_z = Fin 0.8, vec4_w = Fin 0\<rparr>,
             diffuse = \<lparr>vec3_x = Fin 1, vec3_y = Fin 1, vec3_z = Fin 1\<rparr>,
             specular_exponent = Fin 1425, refractive_index = Fin 1\<rparr>"

definition sphere1 :: sphere where
  "sphere1 = \<lparr>center = \<lparr>vec3_x = Fin (- 3), vec3_y = Fin 0, vec3_z = Fin (- 16)\<rparr>,
              radius = Fin 2, sphere_material = ivory\<rparr>"

definition sphere2 :: sphere where
  "sphere2 = \<lparr>center = \<lparr>vec3_x = Fin (- 1), vec3_y = Fin (- 1.5), vec3_z = Fin (- 12)\<rparr>,
              radius = Fin 2, sphere_material = mirror\<rparr>"

definition sphere3 :: sphere where
  "sphere3 = \<lparr>center = \<lparr>vec3_x = Fin 1.5, vec3_y = Fin (- 0.5), vec3_z = Fin (- 18)\<rparr>,
              radius = Fin 3, sphere_material = rubber\<rparr>"

definition sphere4 :: sphere where
  "sphere4 = \<lparr>center = \<lparr>vec3_x = Fin 7, vec3_y = Fin 5, vec3_z = Fin (- 18)\<rparr>,
              radius = Fin 4, sphere_material = mirror\<rparr>"

definition spheres_main :: "sphere list" where
  "spheres_main = [sphere1, sphere2, sphere3, sphere4]"

definition light1 :: light where
  "light1 = \<lparr>position = \<lparr>vec3_x = Fin (- 20), vec3_y = Fin 20, vec3_z = Fin 20\<rparr>,
             intensity = Fin 1.5\<rparr>"

definition light2 :: light where
  "light2 = \<lparr>position = \<lparr>vec3_x = Fin 30, vec3_y = Fin 50, vec3_z = Fin (- 25)\<rparr>,
             intensity = Fin 1.8\<rparr>"

definition light3 :: light where
  "light3 = \<lparr>position = \<lparr>vec3_x = Fin 30, vec3_y = Fin 20, vec3_z = Fin 30\<rparr>,
             intensity = Fin 1.7\<rparr>"

definition lights_main :: "light list" where
  "lights_main = [light1, light2, light3]"

text \<open>The world of the C++ program and its \<^verbatim>\<open>max_depth\<close>.\<close>

definition world_main :: "sphere_cpp list" where
  "world_main =
     [\<lparr>center_cpp = glm_vec3 (Fin 0) (Fin 0) (Fin (- 1)), radius_cpp = Fin 0.5\<rparr>,
      \<lparr>center_cpp = glm_vec3 (Fin 0) (Fin (- 100.5)) (Fin (- 1)), radius_cpp = Fin 100\<rparr>]"

definition max_depth :: int where
  "max_depth = 50"

section \<open>Notions of the statements\<close>

subsection \<open>The background of Policy B\<close>

text \<open>
  The background of Policy B in the words of the specification: the blend
  \<open>(1 - t) * white + t * skyblue\<close> with \<open>t = 0.5 * (unit_direction.y + 1)\<close> and
  \<open>skyblue = (0.5, 0.7, 1.0)\<close>.
\<close>

definition white :: vec3 where
  "white = glm_vec3 (Fin 1) (Fin 1) (Fin 1)"

definition skyblue :: vec3 where
  "skyblue = glm_vec3 (Fin 0.5) (Fin 0.7) (Fin 1.0)"

definition background_gradient :: "vec3 \<Rightarrow> vec3" where
  "background_gradient dir =
     (let unit_direction = glm_normalize dir;
          t = Fin 0.5 * (vec3_y unit_direction + Fin 1)
      in glm_add (glm_scale (Fin 1 - t) white) (glm_scale t skyblue))"

subsection \<open>Finite coordinates\<close>




subsection \<open>Refraction\<close>



subsection \<open>The hit of Policy A\<close>

text \<open>
  The output parameters that \<^verbatim>\<open>scene_intersect\<close> writes when it accepts a sphere at the
  distance \<open>dist_i\<close>: the hit point, the normal there and the sphere's material.
\<close>

definition scene_hit_of :: "vec3 \<Rightarrow> vec3 \<Rightarrow> sphere \<Rightarrow> float \<Rightarrow> scene_hit" where
  "scene_hit_of origin direction sphere dist_i =
     (let hit = \<lparr>vec3_x = vec3_x origin + (vec3_x direction * dist_i),
                 vec3_y = vec3_y origin + (vec3_y direction * dist_i),
                 vec3_z = vec3_z origin + (vec3_z direction * dist_i)\<rparr>
      in (hit,
          vec3_normalize \<lparr>vec3_x = vec3_x hit - vec3_x (center sphere),
                          vec3_y = vec3_y hit - vec3_y (center sphere),
                          vec3_z = vec3_z hit - vec3_z (center sphere)\<rparr>,
          sphere_material sphere))"

subsection \<open>The quantities of the sphere test of Policy B\<close>

text \<open>The discriminant that \<^verbatim>\<open>sphere::hit\<close> computes and tests first.\<close>

definition sphere_discriminant :: "sphere_cpp \<Rightarrow> ray \<Rightarrow> float" where
  "sphere_discriminant s r =
     (let oc = glm_sub (ray_origin r) (center_cpp s);
          a = glm_dot (ray_direction r) (ray_direction r);
          half_b = glm_dot oc (ray_direction r);
          c = glm_dot oc oc - powf (radius_cpp s) (Fin 2)
      in powf half_b (Fin 2) - a * c)"



text \<open>The values that the quantities of \<^verbatim>\<open>sphere::hit\<close> take for a zero direction.\<close>

definition zero_or_NaN :: "float \<Rightarrow> bool" where
  "zero_or_NaN a = (a = Fin 0 \<or> a = NaN)"


subsection \<open>The rejection loop\<close>


subsection \<open>Spheres of the examples\<close>

text \<open>A sphere of radius 1 whose centre is 2000 units down the viewing axis.\<close>

definition far_sphere :: sphere where
  "far_sphere = \<lparr>center = \<lparr>vec3_x = Fin 0, vec3_y = Fin 0, vec3_z = Fin (- 2000)\<rparr>,
              radius = Fin 1, sphere_material = ivory\<rparr>"






text \<open>
  Names for the rays, spheres and hits of the examples: the eye of Policy A at the origin
  with the directions down the viewing axis and straight up; for Policy B the small
  sphere of the program's world, a copy of it two units behind, three rays from the
  origin, and the records of the hits that the examples meet.
\<close>

abbreviation eye :: vec3 where
  "eye \<equiv> \<lparr>vec3_x = Fin 0, vec3_y = Fin 0, vec3_z = Fin 0\<rparr>"

abbreviation forward :: vec3 where
  "forward \<equiv> \<lparr>vec3_x = Fin 0, vec3_y = Fin 0, vec3_z = Fin (- 1)\<rparr>"

abbreviation upward :: vec3 where
  "upward \<equiv> \<lparr>vec3_x = Fin 0, vec3_y = Fin 1, vec3_z = Fin 0\<rparr>"

abbreviation small_ball :: sphere_cpp where
  "small_ball \<equiv> \<lparr>center_cpp = glm_vec3 (Fin 0) (Fin 0) (Fin (- 1)), radius_cpp = Fin 0.5\<rparr>"


abbreviation centre_ray :: ray where
  "centre_ray \<equiv> \<lparr>ray_origin = glm_vec3 (Fin 0) (Fin 0) (Fin 0), ray_direction = glm_vec3 (Fin 0) (Fin 0) (Fin (- 1))\<rparr>"

abbreviation up_ray :: ray where
  "up_ray \<equiv> \<lparr>ray_origin = glm_vec3 (Fin 0) (Fin 0) (Fin 0), ray_direction = glm_vec3 (Fin 0) (Fin 1) (Fin 0)\<rparr>"

abbreviation zero_ray :: ray where
  "zero_ray \<equiv> \<lparr>ray_origin = glm_vec3 (Fin 0) (Fin 0) (Fin 0), ray_direction = glm_vec3 (Fin 0) (Fin 0) (Fin 0)\<rparr>"

abbreviation small_ball_hit :: hit_record where
  "small_ball_hit \<equiv> \<lparr>hit_distance = Fin 0.5, hit_point = glm_vec3 (Fin 0) (Fin 0) (Fin (- 0.5)), hit_normal = glm_vec3 (Fin 0) (Fin 0) (Fin 1), front_face = True\<rparr>"




abbreviation NaN_hit :: hit_record where
  "NaN_hit \<equiv> \<lparr>hit_distance = NaN, hit_point = glm_vec3 NaN NaN NaN, hit_normal = glm_vec3 NaN NaN NaN, front_face = False\<rparr>"




section \<open>Properties of the arithmetic\<close>

declare cast_ray.simps [simp del] vec3_refract.simps [simp del] raytrace.simps [simp del]
declare powf.simps [simp del]

lemma powf_two [simp]: "powf (Fin a) (Fin 2) = Fin (a * a)"
proof -
  consider "a = 1" | "0 < a" "a \<noteq> 1" | "a = 0" | "a < 0" by linarith
  then show ?thesis
  proof cases
    case 4
    then have "(- a) powr 2 = (- a) ^ 2" by (simp add: powr_numeral)
    with 4 show ?thesis by (simp add: powf.simps is_integral_def power2_eq_square)
  qed (simp_all add: powf.simps powr_numeral power2_eq_square)
qed

lemma FLT_MAX_not_less: "\<not> FLT_MAX < Fin 1000"
  by (simp add: FLT_MAX_def less_float_def)

lemma less_float_irrefl: "\<not> (a :: float) < a"
  by (cases a) (simp_all add: less_float_def)

lemma less_float_trans: "(a :: float) < b \<Longrightarrow> b < c \<Longrightarrow> a < c"
  by (cases a; cases b; cases c) (simp_all add: less_float_def)

lemma less_float_not_NaN: "(a :: float) < b \<Longrightarrow> a \<noteq> NaN \<and> b \<noteq> NaN"
  by (cases a; cases b) (simp_all add: less_float_def)

lemma less_float_linear: "a \<noteq> NaN \<Longrightarrow> b \<noteq> NaN \<Longrightarrow> (a :: float) < b \<or> a = b \<or> b < a"
  by (cases a; cases b) (auto simp: less_float_def)

lemma less_eq_float_iff: "(a :: float) \<le> b \<longleftrightarrow> a \<noteq> NaN \<and> b \<noteq> NaN \<and> \<not> b < a"
  by (cases a; cases b) (auto simp: less_float_def less_eq_float_def)




lemma NaN_not_less [simp]: "\<not> NaN < a" "\<not> a < NaN"
  by (cases a; simp add: float_ops)+

section \<open>Policy A: the background colour\<close>

lemma scene_intersect_step_miss:
  "sphere_ray_intersect s origin direction = None \<Longrightarrow>
   scene_intersect_step origin direction s st = st"
  by (simp add: scene_intersect_step_def)

lemma scene_intersect_fold_miss:
  "\<forall>s \<in> set spheres. sphere_ray_intersect s origin direction = None \<Longrightarrow>
   fold (scene_intersect_step origin direction) spheres st = st"
  by (induction spheres arbitrary: st) (simp_all add: scene_intersect_step_miss)

lemma scene_intersect_miss:
  "\<forall>s \<in> set spheres. sphere_ray_intersect s origin direction = None \<Longrightarrow>
   scene_intersect origin direction spheres = None"
  by (simp add: scene_intersect_def scene_intersect_fold_miss FLT_MAX_not_less)

text \<open>
  Claim C1. \<^verbatim>\<open>cast_ray\<close> shades a hit only while \<^verbatim>\<open>depth <= 4\<close>, that is for the
  primary ray (depth 0) and four recursive levels. When the depth is beyond that, or when
  \<^verbatim>\<open>sphere_ray_intersect\<close> reports no intersection for any sphere of the scene, the colour
  returned is the constant (0.2, 0.7, 0.8).
\<close>

theorem cast_ray_background:
  "4 < depth \<or> (\<forall>s \<in> set spheres. sphere_ray_intersect s origin direction = None) \<Longrightarrow>
   cast_ray origin direction spheres lights depth
     = \<lparr>vec3_x = Fin 0.2, vec3_y = Fin 0.7, vec3_z = Fin 0.8\<rparr>"
proof (cases "depth \<le> 4")
  case False
  then show ?thesis by (simp add: cast_ray.simps background_def)
next
  case True
  assume "4 < depth \<or> (\<forall>s \<in> set spheres. sphere_ray_intersect s origin direction = None)"
  with True have "\<forall>s \<in> set spheres. sphere_ray_intersect s origin direction = None"
    by auto
  then have "scene_intersect origin direction spheres = None"
    by (rule scene_intersect_miss)
  with True show ?thesis by (simp add: cast_ray.simps background_def)
qed

text \<open>
  The primary ray that looks straight up from the camera misses the four spheres of
  \<^verbatim>\<open>main\<close>; a ray of depth 5 gets the background whatever it meets.
\<close>

lemma up_misses_spheres_main:
  "\<forall>s \<in> set spheres_main.
     sphere_ray_intersect s eye upward = None"
  by (simp add: spheres_main_def sphere1_def sphere2_def sphere3_def sphere4_def
      sphere_ray_intersect_def vec3_dot_def float_ops)

theorem cast_ray_background_witness:
  "sphere_ray_intersect sphere1 eye upward = None
   \<and> sphere_ray_intersect sphere2 eye upward = None
   \<and> sphere_ray_intersect sphere3 eye upward = None
   \<and> sphere_ray_intersect sphere4 eye upward = None
   \<and> cast_ray eye upward spheres_main lights_main 0
      = \<lparr>vec3_x = Fin 0.2, vec3_y = Fin 0.7, vec3_z = Fin 0.8\<rparr>
   \<and> (4 :: 32 word) < 5
   \<and> cast_ray eye forward spheres_main lights_main 5
      = \<lparr>vec3_x = Fin 0.2, vec3_y = Fin 0.7, vec3_z = Fin 0.8\<rparr>"
  using up_misses_spheres_main
    cast_ray_background [of 0 spheres_main eye upward lights_main]
    cast_ray_background [of 5 spheres_main eye forward lights_main]
  by (simp add: spheres_main_def)


section \<open>Policy B: exhausted depth and the background\<close>

text \<open>
  Claim C5. When the depth budget of \<^verbatim>\<open>raytrace\<close> is exhausted (\<^verbatim>\<open>depth <= 0\<close>) the
  result is black, whatever the ray, the scene and the random source are, and no random
  number is drawn; with \<^verbatim>\<open>max_depth = 0\<close> that is the colour of every sample of every
  pixel.
\<close>

theorem raytrace_depth_exhausted:
  "depth \<le> 0 \<Longrightarrow>
   raytrace rand r world depth g = Some (\<lparr>vec3_x = Fin 0, vec3_y = Fin 0, vec3_z = Fin 0\<rparr>, g)"
  by (simp add: raytrace.simps glm_vec3_def)

theorem raytrace_depth_exhausted_witness:
  "(0 :: int) \<le> 0 \<and>
   raytrace (\<lambda>n. Fin 0) centre_ray
     (world_hit (map sphere_hit world_main)) 0 0
     = Some (\<lparr>vec3_x = Fin 0, vec3_y = Fin 0, vec3_z = Fin 0\<rparr>, 0)"
  using raytrace_depth_exhausted [of 0 "\<lambda>n. Fin 0"
      centre_ray
      "world_hit (map sphere_hit world_main)" 0]
  by simp

lemma world_hit_Nil: "world_hit [] r t_min t_max = None"
  by (simp add: world_hit_def)

lemma raytrace_miss:
  "0 < depth \<Longrightarrow> world r (Fin 0.001) infinity = None \<Longrightarrow>
   raytrace rand r world depth g = Some (background_gradient (ray_direction r), g)"
  by (simp add: raytrace.simps background_gradient_def white_def skyblue_def Let_def)

text \<open>
  Claim C6. With depth left, a ray for which the scene reports no hit gets the gradient
  of the specification, computed from its direction; a world without objects reports no
  hit for any ray, so there every ray gets the gradient.
\<close>

theorem raytrace_miss_gradient:
  "0 < depth \<Longrightarrow>
   (world r (Fin 0.001) infinity = None \<longrightarrow>
      raytrace rand r world depth g = Some (background_gradient (ray_direction r), g))
   \<and> raytrace rand r (world_hit []) depth g = Some (background_gradient (ray_direction r), g)"
  by (simp add: raytrace_miss world_hit_Nil)

text \<open>
  The ray that looks straight up misses the small sphere of the program's world; its
  gradient is the sky blue itself.
\<close>

lemma up_misses_small_sphere:
  "world_hit [sphere_hit small_ball]
     up_ray (Fin 0.001) infinity = None"
  by (simp add: world_hit_def world_hit_step_def sphere_hit_def sphere_record_def glm_vec3_def glm_sub_def
      glm_dot_def float_ops)

lemma gradient_up:
  "background_gradient (glm_vec3 (Fin 0) (Fin 1) (Fin 0)) = glm_vec3 (Fin 0.5) (Fin 0.7) (Fin 1)"
  by (simp add: background_gradient_def glm_normalize_def glm_dot_def glm_vec3_def glm_times_def
      glm_add_def glm_scale_def white_def skyblue_def float_ops)

theorem raytrace_miss_gradient_witness:
  "0 < max_depth
   \<and> world_hit [sphere_hit small_ball]
        up_ray (Fin 0.001) infinity = None
   \<and> raytrace (\<lambda>n. Fin 0)
        up_ray
        (world_hit [sphere_hit small_ball])
        max_depth 0
      = Some (glm_vec3 (Fin 0.5) (Fin 0.7) (Fin 1), 0)
   \<and> raytrace (\<lambda>n. Fin 0)
        up_ray
        (world_hit []) max_depth 0
      = Some (glm_vec3 (Fin 0.5) (Fin 0.7) (Fin 1), 0)"
proof -
  have depth: "0 < max_depth"
    by (simp add: max_depth_def)
  show ?thesis
    using depth up_misses_small_sphere gradient_up
      raytrace_miss_gradient [OF depth,
        of "world_hit [sphere_hit small_ball]"
           up_ray "\<lambda>n. Fin 0" 0]
    by simp
qed


section \<open>Policy A: scene resolution\<close>

lemma scene_intersect_step_hit:
  "sphere_ray_intersect s origin direction = Some t \<Longrightarrow>
   scene_intersect_step origin direction s st
     = (if t < fst st then (t, Some (scene_hit_of origin direction s t)) else st)"
  by (simp add: scene_intersect_step_def scene_hit_of_def Let_def)

lemma scene_intersect_step_cases:
  "scene_intersect_step origin direction s st = st
   \<or> (\<exists>t. sphere_ray_intersect s origin direction = Some t \<and> t < fst st
        \<and> scene_intersect_step origin direction s st = (t, Some (scene_hit_of origin direction s t)))"
  by (cases "sphere_ray_intersect s origin direction")
     (simp_all add: scene_intersect_step_miss scene_intersect_step_hit)

lemma scene_intersect_fold_cases:
  "fold (scene_intersect_step origin direction) spheres st = st
   \<or> (\<exists>s \<in> set spheres. \<exists>t. sphere_ray_intersect s origin direction = Some t \<and> t < fst st
        \<and> fold (scene_intersect_step origin direction) spheres st
            = (t, Some (scene_hit_of origin direction s t)))"
proof (induction spheres arbitrary: st)
  case Nil
  then show ?case by simp
next
  case (Cons a spheres)
  let ?st = "scene_intersect_step origin direction a st"
  from scene_intersect_step_cases [of origin direction a st]
  consider "?st = st"
    | t where "sphere_ray_intersect a origin direction = Some t" "t < fst st"
        "?st = (t, Some (scene_hit_of origin direction a t))"
    by blast
  then show ?case
  proof cases
    case 1
    with Cons.IH [of st] show ?thesis by auto
  next
    case 2
    from Cons.IH [of ?st] show ?thesis
    proof
      assume "fold (scene_intersect_step origin direction) spheres ?st = ?st"
      with 2 show ?thesis by auto
    next
      assume "\<exists>s \<in> set spheres. \<exists>u. sphere_ray_intersect s origin direction = Some u \<and> u < fst ?st
        \<and> fold (scene_intersect_step origin direction) spheres ?st
            = (u, Some (scene_hit_of origin direction s u))"
      then obtain s u where su: "s \<in> set spheres" "sphere_ray_intersect s origin direction = Some u"
        "u < fst ?st" "fold (scene_intersect_step origin direction) spheres ?st
            = (u, Some (scene_hit_of origin direction s u))"
        by blast
      from su(3) 2 have "u < fst st"
        by (auto intro: less_float_trans)
      with su show ?thesis by auto
    qed
  qed
qed

lemma scene_intersect_fold_mono:
  "fst (fold (scene_intersect_step origin direction) spheres st) = fst st
   \<or> fst (fold (scene_intersect_step origin direction) spheres st) < fst st"
  using scene_intersect_fold_cases [of origin direction spheres st] by auto

lemma scene_intersect_fold_nearest:
  "s \<in> set spheres \<Longrightarrow> sphere_ray_intersect s origin direction = Some t \<Longrightarrow>
   \<not> t < fst (fold (scene_intersect_step origin direction) spheres st)"
proof (induction spheres arbitrary: st)
  case Nil
  then show ?case by simp
next
  case (Cons a spheres)
  let ?st = "scene_intersect_step origin direction a st"
  show ?case
  proof (cases "s \<in> set spheres")
    case True
    with Cons show ?thesis by simp
  next
    case False
    with Cons.prems have [simp]: "s = a" by simp
    have "\<not> t < fst ?st"
      using Cons.prems(2) by (simp add: scene_intersect_step_hit less_float_irrefl)
    with scene_intersect_fold_mono [of origin direction spheres ?st]
    show ?thesis by (auto dest: less_float_trans)
  qed
qed

lemma scene_intersect_fold_dist_not_NaN:
  "fst (fold (scene_intersect_step origin direction) spheres (FLT_MAX, None)) \<noteq> NaN"
  using scene_intersect_fold_mono [of origin direction spheres "(FLT_MAX, None)"]
  by (auto simp: FLT_MAX_def dest: less_float_not_NaN)

lemma scene_intersect_Some_iff:
  "scene_intersect origin direction spheres = Some h \<longleftrightarrow>
   (\<exists>s \<in> set spheres. \<exists>t. sphere_ray_intersect s origin direction = Some t \<and> t < Fin 1000
      \<and> h = scene_hit_of origin direction s t
      \<and> fold (scene_intersect_step origin direction) spheres (FLT_MAX, None) = (t, Some h))"
proof -
  let ?st = "fold (scene_intersect_step origin direction) spheres (FLT_MAX, None)"
  show ?thesis
  proof
    assume h: "scene_intersect origin direction spheres = Some h"
    then have lt: "fst ?st < Fin 1000" and snd: "snd ?st = Some h"
      by (auto simp: scene_intersect_def Let_def split: if_splits)
    from snd have "?st \<noteq> (FLT_MAX, None)" by auto
    with scene_intersect_fold_cases [of origin direction spheres "(FLT_MAX, None)"]
    obtain s t where "s \<in> set spheres" "sphere_ray_intersect s origin direction = Some t"
      "?st = (t, Some (scene_hit_of origin direction s t))"
      by auto
    with lt snd show "\<exists>s \<in> set spheres. \<exists>t. sphere_ray_intersect s origin direction = Some t \<and> t < Fin 1000
      \<and> h = scene_hit_of origin direction s t \<and> ?st = (t, Some h)"
      by auto
  next
    assume "\<exists>s \<in> set spheres. \<exists>t. sphere_ray_intersect s origin direction = Some t \<and> t < Fin 1000
      \<and> h = scene_hit_of origin direction s t \<and> ?st = (t, Some h)"
    then show "scene_intersect origin direction spheres = Some h"
      by (auto simp: scene_intersect_def Let_def)
  qed
qed

lemma scene_intersect_None_iff:
  "scene_intersect origin direction spheres = None \<longleftrightarrow>
   \<not> (\<exists>s \<in> set spheres. \<exists>t. sphere_ray_intersect s origin direction = Some t \<and> t < Fin 1000)"
proof
  assume none: "scene_intersect origin direction spheres = None"
  let ?st = "fold (scene_intersect_step origin direction) spheres (FLT_MAX, None)"
  show "\<not> (\<exists>s \<in> set spheres. \<exists>t. sphere_ray_intersect s origin direction = Some t \<and> t < Fin 1000)"
  proof
    assume "\<exists>s \<in> set spheres. \<exists>t. sphere_ray_intersect s origin direction = Some t \<and> t < Fin 1000"
    then obtain s t where st: "s \<in> set spheres" "sphere_ray_intersect s origin direction = Some t"
      "t < Fin 1000" by blast
    then have nl: "\<not> t < fst ?st"
      by (simp add: scene_intersect_fold_nearest)
    have "t \<noteq> NaN" using st(3) by (auto dest: less_float_not_NaN)
    with nl scene_intersect_fold_dist_not_NaN [of origin direction spheres]
    have "fst ?st = t \<or> fst ?st < t"
      using less_float_linear by blast
    with st(3) have lt: "fst ?st < Fin 1000"
      by (auto intro: less_float_trans)
    then have "?st \<noteq> (FLT_MAX, None)"
      using FLT_MAX_not_less by auto
    with scene_intersect_fold_cases [of origin direction spheres "(FLT_MAX, None)"]
    obtain s' t' where "?st = (t', Some (scene_hit_of origin direction s' t'))"
      by blast
    then have "snd ?st \<noteq> None" by simp
    with lt none show False
      by (simp add: scene_intersect_def Let_def)
  qed
next
  assume no: "\<not> (\<exists>s \<in> set spheres. \<exists>t. sphere_ray_intersect s origin direction = Some t \<and> t < Fin 1000)"
  show "scene_intersect origin direction spheres = None"
  proof (cases "scene_intersect origin direction spheres")
    case None
    then show ?thesis .
  next
    case (Some h)
    then have "\<exists>s \<in> set spheres. \<exists>t. sphere_ray_intersect s origin direction = Some t \<and> t < Fin 1000"
      unfolding scene_intersect_Some_iff by blast
    with no show ?thesis by blast
  qed
qed

text \<open>
  Claim C10. \<^verbatim>\<open>scene_intersect\<close> reports a hit exactly when some sphere is intersected
  at a distance below 1000, that is when the nearest intersection is. When every
  intersection lies at distance 1000 or more it reports no hit, and \<^verbatim>\<open>cast_ray\<close> gives
  the background colour although the ray meets a sphere.
\<close>

theorem scene_intersect_cutoff:
  "(scene_intersect origin direction spheres \<noteq> None
      \<longleftrightarrow> (\<exists>s \<in> set spheres. \<exists>t. sphere_ray_intersect s origin direction = Some t \<and> t < Fin 1000))
   \<and> ((\<forall>s \<in> set spheres. \<forall>t. sphere_ray_intersect s origin direction = Some t \<longrightarrow> Fin 1000 \<le> t)
        \<longrightarrow> scene_intersect origin direction spheres = None
            \<and> cast_ray origin direction spheres lights depth
                = \<lparr>vec3_x = Fin 0.2, vec3_y = Fin 0.7, vec3_z = Fin 0.8\<rparr>)"
proof (intro conjI impI)
  show "scene_intersect origin direction spheres \<noteq> None
      \<longleftrightarrow> (\<exists>s \<in> set spheres. \<exists>t. sphere_ray_intersect s origin direction = Some t \<and> t < Fin 1000)"
    by (simp add: scene_intersect_None_iff)
next
  assume far: "\<forall>s \<in> set spheres. \<forall>t. sphere_ray_intersect s origin direction = Some t \<longrightarrow> Fin 1000 \<le> t"
  then show none: "scene_intersect origin direction spheres = None"
    unfolding scene_intersect_None_iff by (auto simp: less_eq_float_iff)
  then show "cast_ray origin direction spheres lights depth
                = \<lparr>vec3_x = Fin 0.2, vec3_y = Fin 0.7, vec3_z = Fin 0.8\<rparr>"
    by (simp add: cast_ray.simps background_def)
qed

text \<open>The far sphere is met at distance 1999 and rendered as background.\<close>

lemma far_sphere_intersect:
  "sphere_ray_intersect far_sphere eye forward = Some (Fin 1999)"
  by (simp add: far_sphere_def sphere_ray_intersect_def vec3_dot_def float_ops)

theorem scene_intersect_cutoff_witness:
  "sphere_ray_intersect far_sphere eye forward = Some (Fin 1999)
   \<and> Fin 1000 \<le> Fin 1999
   \<and> scene_intersect eye forward [far_sphere] = None
   \<and> cast_ray eye forward [far_sphere] lights_main 0
      = \<lparr>vec3_x = Fin 0.2, vec3_y = Fin 0.7, vec3_z = Fin 0.8\<rparr>"
  using far_sphere_intersect
    scene_intersect_cutoff [of eye forward "[far_sphere]" lights_main 0]
  by (simp add: less_eq_float_def)


section \<open>Policy A: refraction\<close>



































section \<open>Policy B: degenerate rays\<close>

lemma zero_or_NaN_mult_zero: "zero_or_NaN (a * Fin 0)"
  by (cases a) (simp_all add: zero_or_NaN_def float_ops)

lemma zero_or_NaN_zero_mult: "zero_or_NaN (Fin 0 * a)"
  by (cases a) (simp_all add: zero_or_NaN_def float_ops)

lemma zero_or_NaN_add: "zero_or_NaN a \<Longrightarrow> zero_or_NaN b \<Longrightarrow> zero_or_NaN (a + b)"
  by (auto simp: zero_or_NaN_def float_ops)

lemma zero_or_NaN_diff: "zero_or_NaN a \<Longrightarrow> zero_or_NaN b \<Longrightarrow> zero_or_NaN (a - b)"
  by (auto simp: zero_or_NaN_def float_ops)

lemma zero_or_NaN_neg: "zero_or_NaN a \<Longrightarrow> zero_or_NaN (- a)"
  by (auto simp: zero_or_NaN_def float_ops)

lemma zero_or_NaN_square: "zero_or_NaN a \<Longrightarrow> zero_or_NaN (powf a (Fin 2))"
  by (auto simp: zero_or_NaN_def powf.simps)

lemma zero_or_NaN_sqrtf: "zero_or_NaN a \<Longrightarrow> zero_or_NaN (sqrtf a)"
  by (auto simp: zero_or_NaN_def)

lemma zero_or_NaN_not_less: "zero_or_NaN a \<Longrightarrow> \<not> a < Fin 0"
  by (auto simp: zero_or_NaN_def float_ops)

lemma zero_or_NaN_div_zero: "zero_or_NaN a \<Longrightarrow> a / Fin 0 = NaN"
  by (auto simp: zero_or_NaN_def float_ops)

lemma glm_dot_zero_right:
  "zero_or_NaN (glm_dot v (glm_vec3 (Fin 0) (Fin 0) (Fin 0)))"
  by (simp add: glm_dot_def glm_vec3_def zero_or_NaN_add zero_or_NaN_mult_zero)

lemma sphere_hit_zero_direction:
  assumes "ray_direction r = glm_vec3 (Fin 0) (Fin 0) (Fin 0)"
  shows "map_option hit_distance (sphere_hit s r t_min t_max) = Some NaN"
proof -
  define oc where "oc = glm_sub (ray_origin r) (center_cpp s)"
  define half_b where "half_b = glm_dot oc (ray_direction r)"
  define c where "c = glm_dot oc oc - powf (radius_cpp s) (Fin 2)"
  define discriminant where "discriminant = powf half_b (Fin 2) - Fin 0 * c"
  have a: "glm_dot (ray_direction r) (ray_direction r) = Fin 0"
    by (simp add: assms glm_dot_def glm_vec3_def float_ops)
  have hb: "zero_or_NaN half_b"
    unfolding half_b_def assms by (rule glm_dot_zero_right)
  have d: "zero_or_NaN discriminant"
    unfolding discriminant_def
    by (intro zero_or_NaN_diff zero_or_NaN_square hb zero_or_NaN_zero_mult)
  have r1: "(- half_b - sqrtf discriminant) / Fin 0 = NaN"
    by (intro zero_or_NaN_div_zero zero_or_NaN_diff zero_or_NaN_neg zero_or_NaN_sqrtf hb d)
  have r2: "(- half_b + sqrtf discriminant) / Fin 0 = NaN"
    by (intro zero_or_NaN_div_zero zero_or_NaN_add zero_or_NaN_neg zero_or_NaN_sqrtf hb d)
  have nl: "\<not> discriminant < Fin 0"
    by (rule zero_or_NaN_not_less [OF d])
  show ?thesis
    using nl r1 r2
    by (simp add: sphere_hit_def sphere_record_def Let_def a set_face_normal_def
        oc_def [symmetric] half_b_def [symmetric] c_def [symmetric] discriminant_def [symmetric])
qed

lemma sphere_hit_in_interval:
  "sphere_hit s r t_min t_max = Some rec \<Longrightarrow>
   \<not> hit_distance rec < t_min \<and> \<not> t_max < hit_distance rec"
  by (auto simp: sphere_hit_def sphere_record_def Let_def set_face_normal_def split: if_splits)


lemma sphere_hit_negative_discriminant:
  "sphere_discriminant s r < Fin 0 \<Longrightarrow> sphere_hit s r t_min t_max = None"
  by (simp add: sphere_hit_def sphere_record_def sphere_discriminant_def Let_def)

lemma sphere_ray_intersect_nonneg:
  "sphere_ray_intersect s origin direction = Some t \<Longrightarrow> \<not> t < Fin 0"
  by (auto simp: sphere_ray_intersect_def Let_def split: if_splits)

text \<open>
  Claim C3 says that a ray of zero direction is reported as no hit, without a division
  by zero. For the sphere of the program's world and the zero direction, \<open>a\<close> is 0, the
  root is \<open>0 / 0\<close>, both comparisons with NaN are false, and \<^verbatim>\<open>sphere::hit\<close> reports a
  hit whose distance, point and normal are NaN.
\<close>

theorem sphere_hit_zero_direction_counterexample:
  "glm_dot (glm_vec3 (Fin 0) (Fin 0) (Fin 0)) (glm_vec3 (Fin 0) (Fin 0) (Fin 0)) = Fin 0
   \<and> sphere_hit small_ball
        zero_ray (Fin 0.001) infinity
      = Some NaN_hit"
  by (simp add: sphere_hit_def sphere_record_def Let_def set_face_normal_def ray_at_def glm_dot_def glm_vec3_def
      glm_sub_def glm_add_def glm_scale_def glm_div_def glm_neg_def float_ops infinity_def)

text \<open>
  Claim C3, amended. \<^verbatim>\<open>sphere::hit\<close> does not guard the division by \<open>a\<close>: for a zero
  direction it reports, for every sphere, origin and interval, a hit at distance NaN.
  What it does report as no hit is a negative discriminant, and a distance it reports
  is never below \<open>t_min\<close> nor above \<open>t_max\<close>; \<^verbatim>\<open>sphere_ray_intersect\<close> reports no distance
  below zero.
\<close>

theorem sphere_hit_degenerate:
  "(ray_direction r = glm_vec3 (Fin 0) (Fin 0) (Fin 0) \<longrightarrow>
      map_option hit_distance (sphere_hit s r t_min t_max) = Some NaN)
   \<and> (sphere_discriminant s r < Fin 0 \<longrightarrow> sphere_hit s r t_min t_max = None)
   \<and> (sphere_hit s r t_min t_max = Some rec \<longrightarrow>
        \<not> hit_distance rec < t_min \<and> \<not> t_max < hit_distance rec)
   \<and> (sphere_ray_intersect s' origin direction = Some t \<longrightarrow> \<not> t < Fin 0)"
  by (simp add: sphere_hit_zero_direction sphere_hit_negative_discriminant
      sphere_hit_in_interval sphere_ray_intersect_nonneg)

text \<open>
  The ray through the centre of the small sphere hits it at distance 0.5, in the point
  \<open>(0, 0, -0.5)\<close> with the normal \<open>(0, 0, 1)\<close>.
\<close>

lemma sqrt_quarter: "sqrt (1 / 4) = 1 / 2"
  by (simp add: real_sqrt_divide)

lemma centre_ray_hits_small_sphere:
  "sphere_hit small_ball
        centre_ray (Fin 0.001) infinity
      = Some small_ball_hit"
  by (simp add: sphere_hit_def sphere_record_def Let_def set_face_normal_def ray_at_def glm_dot_def glm_vec3_def
      glm_sub_def glm_add_def glm_scale_def glm_div_def glm_neg_def float_ops infinity_def
      sqrt_quarter)

lemma up_ray_discriminant:
  "sphere_discriminant small_ball up_ray < Fin 0"
  by (simp add: sphere_discriminant_def Let_def glm_dot_def glm_vec3_def glm_sub_def float_ops)


theorem sphere_hit_degenerate_witness:
  "ray_direction zero_ray
     = glm_vec3 (Fin 0) (Fin 0) (Fin 0)
   \<and> map_option hit_distance
        (sphere_hit small_ball zero_ray (Fin 0.001) infinity) = Some NaN
   \<and> sphere_discriminant small_ball up_ray < Fin 0
   \<and> sphere_hit small_ball up_ray (Fin 0.001) infinity = None
   \<and> sphere_hit small_ball centre_ray (Fin 0.001) infinity
      = Some small_ball_hit
   \<and> \<not> Fin 0.5 < Fin 0.001 \<and> \<not> infinity < Fin 0.5
   \<and> sphere_ray_intersect far_sphere eye forward = Some (Fin 1999)
   \<and> \<not> Fin 1999 < Fin 0"
  using
    sphere_hit_degenerate [where r = zero_ray and s = small_ball
      and t_min = "Fin 0.001" and t_max = infinity
      and rec = small_ball_hit
      and s' = far_sphere and origin = eye and direction = forward and t = "Fin 1999"]
    sphere_hit_degenerate [where r = up_ray and s = small_ball
      and t_min = "Fin 0.001" and t_max = infinity
      and rec = small_ball_hit
      and s' = far_sphere and origin = eye and direction = forward and t = "Fin 1999"]
    sphere_hit_degenerate [where r = centre_ray and s = small_ball
      and t_min = "Fin 0.001" and t_max = infinity
      and rec = small_ball_hit
      and s' = far_sphere and origin = eye and direction = forward and t = "Fin 1999"]
    up_ray_discriminant centre_ray_hits_small_sphere far_sphere_intersect
  by simp


section \<open>Termination of the transport\<close>
















section \<open>Policy B: scene resolution\<close>


lemma hit_distance_sphere_record [simp]: "hit_distance (sphere_record s r t) = t"
  by (simp add: sphere_record_def set_face_normal_def Let_def)





























section \<open>The order of the primitives\<close>












end
